theory Spec2Isabelle
  imports
    Complex_Main
    "HOL-Library.Multiset"
    "HOL-Library.Char_ord"
    "HOL-Library.List_Lexorder"
    "HOL-Library.Word"
begin

unbundle bit_operations_syntax

section \<open>Python strings\<close>

text \<open>
  A Python \<open>str\<close> is modelled as a \<open>string\<close>: a list of characters, each one
  standing for the code point of the same number (0 to 255, Latin-1). The
  predicates below are the ones CPython 3.11 applies to these code points:
  \<open>str.isspace\<close> (used by \<open>strip\<close> and \<open>split\<close>), the regular-expression
  classes \<open>\d\<close> and \<open>\w\<close> of a \<open>str\<close> pattern, and \<open>str.lower\<close>.
\<close>

definition py_isspace :: "char \<Rightarrow> bool" where
  "py_isspace c =
     (let n = (of_char c :: nat)
      in (9 \<le> n \<and> n \<le> 13) \<or> (28 \<le> n \<and> n \<le> 32) \<or> n = 133 \<or> n = 160)"

definition is_digit :: "char \<Rightarrow> bool" where
  "is_digit c = (let n = (of_char c :: nat) in 48 \<le> n \<and> n \<le> 57)"

definition is_word :: "char \<Rightarrow> bool" where
  "is_word c =
     (let n = (of_char c :: nat)
      in (48 \<le> n \<and> n \<le> 57) \<or> (65 \<le> n \<and> n \<le> 90) \<or> n = 95 \<or> (97 \<le> n \<and> n \<le> 122)
         \<or> n = 170 \<or> n = 178 \<or> n = 179 \<or> n = 181 \<or> n = 185 \<or> n = 186
         \<or> (188 \<le> n \<and> n \<le> 190) \<or> (192 \<le> n \<and> n \<noteq> 215 \<and> n \<noteq> 247))"

definition py_lower_char :: "char \<Rightarrow> char" where
  "py_lower_char c =
     (let n = (of_char c :: nat)
      in if (65 \<le> n \<and> n \<le> 90) \<or> (192 \<le> n \<and> n \<le> 222 \<and> n \<noteq> 215)
         then char_of (n + 32) else c)"

definition py_lower :: "string \<Rightarrow> string" where
  "py_lower s = map py_lower_char s"

definition py_strip :: "string \<Rightarrow> string" where
  "py_strip s = rev (dropWhile py_isspace (rev (dropWhile py_isspace s)))"

text \<open>
  \<open>s.split()\<close>: the maximal runs of non-whitespace characters, in order.
  The first argument of \<open>py_split_aux\<close> is the token being read.
\<close>

fun py_split_aux :: "string \<Rightarrow> string \<Rightarrow> string list" where
  "py_split_aux cur [] = (if cur = [] then [] else [cur])"
| "py_split_aux cur (c # cs) =
     (if py_isspace c
      then (if cur = [] then py_split_aux [] cs else cur # py_split_aux [] cs)
      else py_split_aux (cur @ [c]) cs)"

definition py_split :: "string \<Rightarrow> string list" where
  "py_split s = py_split_aux [] s"

text \<open>
  \<open>s.split(None, k)\<close>: at most \<open>k\<close> splits; once they are used up the rest of
  the string, without its leading whitespace, is the last item.
\<close>

fun py_split_max :: "nat \<Rightarrow> string \<Rightarrow> string list" where
  "py_split_max 0 s =
     (let r = dropWhile py_isspace s in if r = [] then [] else [r])"
| "py_split_max (Suc k) s =
     (let r = dropWhile py_isspace s
      in if r = [] then []
         else takeWhile (\<lambda>c. \<not> py_isspace c) r
              # py_split_max k (dropWhile (\<lambda>c. \<not> py_isspace c) r))"

text \<open>\<open>sub in s\<close> for strings: \<open>sub\<close> occurs in \<open>s\<close> as a contiguous run.\<close>

fun py_contains :: "string \<Rightarrow> string \<Rightarrow> bool" where
  "py_contains sub [] = (sub = [])"
| "py_contains sub (c # cs) = (take (length sub) (c # cs) = sub \<or> py_contains sub cs)"

text \<open>
  \<open>int(s)\<close> in base 10: whitespace around the number is dropped (the
  whitespace of \<open>int\<close> leaves out the separators 28 to 31), then an optional
  sign, then digits, where a single underscore may stand between two digits.
  \<open>None\<close> is \<open>ValueError\<close>.
\<close>

definition py_int_space :: "char \<Rightarrow> bool" where
  "py_int_space c =
     (let n = (of_char c :: nat) in (9 \<le> n \<and> n \<le> 13) \<or> n = 32 \<or> n = 133 \<or> n = 160)"

fun int_digits :: "bool \<Rightarrow> nat \<Rightarrow> string \<Rightarrow> nat option" where
  "int_digits prev_digit acc [] = (if prev_digit then Some acc else None)"
| "int_digits prev_digit acc (c # cs) =
     (if is_digit c then int_digits True (10 * acc + (of_char c - 48)) cs
      else if c = CHR ''_'' \<and> prev_digit then int_digits False acc cs
      else None)"

definition py_int :: "string \<Rightarrow> int option" where
  "py_int s =
     (case rev (dropWhile py_int_space (rev (dropWhile py_int_space s))) of
        [] \<Rightarrow> None
      | c # cs \<Rightarrow>
          if c = CHR ''-'' then map_option (\<lambda>n. - int n) (int_digits False 0 cs)
          else if c = CHR ''+'' then map_option int (int_digits False 0 cs)
          else map_option int (int_digits False 0 (c # cs)))"

section \<open>The IPv4 pattern\<close>

text \<open>
  The analyzer uses one regular expression in two forms:
  \<open>\d{1,3}\.\d{1,3}\.\d{1,3}\.\d{1,3}\<close> with \<open>re.search\<close> (relevance), and the same
  between two \<open>\b\<close> with \<open>re.findall\<close> (the addresses a policy rule names).

  \<open>octet_dot\<close> is \<open>\d{1,3}\.\<close> at the head of the string: the digits are taken
  greedily, and giving one back leaves a digit where the dot must stand, so the
  group matches exactly when the whole run of digits is 1 to 3 long and a dot
  follows it. The result is the matched text and the rest of the string.
\<close>

definition octet_dot :: "string \<Rightarrow> (string \<times> string) option" where
  "octet_dot s =
     (let ds = takeWhile is_digit s; r = dropWhile is_digit s
      in if 1 \<le> length ds \<and> length ds \<le> 3
         then (case r of
                 [] \<Rightarrow> None
               | c # r' \<Rightarrow> if c = CHR ''.'' then Some (ds @ [c], r') else None)
         else None)"

text \<open>
  The last group without \<open>\b\<close>: up to three digits, at least one.
\<close>

definition last_octet :: "string \<Rightarrow> string option" where
  "last_octet s =
     (let ds = take 3 (takeWhile is_digit s) in if ds = [] then None else Some ds)"

text \<open>
  The last group before \<open>\b\<close>: the character before the boundary is a digit,
  so the boundary needs the end of the string or a non-word character next;
  after fewer digits than the run holds the next character is a digit, so the run
  is 1 to 3 long and is taken whole.
\<close>

definition last_octet_b :: "string \<Rightarrow> string option" where
  "last_octet_b s =
     (let ds = takeWhile is_digit s; r = dropWhile is_digit s
      in if 1 \<le> length ds \<and> length ds \<le> 3 \<and> (case r of [] \<Rightarrow> True | c # _ \<Rightarrow> \<not> is_word c)
         then Some ds else None)"

definition match_ip :: "(string \<Rightarrow> string option) \<Rightarrow> string \<Rightarrow> string option" where
  "match_ip final s =
     (case octet_dot s of
        None \<Rightarrow> None
      | Some (a, r1) \<Rightarrow>
          (case octet_dot r1 of
             None \<Rightarrow> None
           | Some (b, r2) \<Rightarrow>
               (case octet_dot r2 of
                  None \<Rightarrow> None
                | Some (c, r3) \<Rightarrow>
                    (case final r3 of
                       None \<Rightarrow> None
                     | Some d \<Rightarrow> Some (a @ b @ c @ d)))))"

text \<open>\<open>re.search(pattern, s)\<close> is truthy: the pattern matches at some position.\<close>

fun search_ip :: "string \<Rightarrow> bool" where
  "search_ip [] = False"
| "search_ip (c # cs) = (match_ip last_octet (c # cs) \<noteq> None \<or> search_ip cs)"

text \<open>
  \<open>re.findall\<close> of the bounded pattern: the matches from left to right, none
  overlapping. \<open>skip\<close> counts the characters of the current match still to be
  passed over; \<open>prev_word\<close> says whether the character before the position is
  a word character (the leading \<open>\b\<close> stands before a digit, so it needs a
  non-word character or the start of the string before it).
\<close>

fun findall_ip_from :: "nat \<Rightarrow> bool \<Rightarrow> string \<Rightarrow> string list" where
  "findall_ip_from skip prev_word [] = []"
| "findall_ip_from (Suc skip) prev_word (c # cs) = findall_ip_from skip (is_word c) cs"
| "findall_ip_from 0 prev_word (c # cs) =
     (case (if prev_word then None else match_ip last_octet_b (c # cs)) of
        Some m \<Rightarrow> m # findall_ip_from (length m - 1) (is_word c) cs
      | None \<Rightarrow> findall_ip_from 0 (is_word c) cs)"

definition findall_ip :: "string \<Rightarrow> string list" where
  "findall_ip s = findall_ip_from 0 False s"

section \<open>Rule records and the two parsers\<close>

text \<open>
  A parsed rule is a dictionary in the source; the keys a failed parse leaves
  out are \<open>None\<close> here. \<open>rule.get(k)\<close> is truthy when the key is there with a
  non-empty string.
\<close>

record rule =
  rule_type :: string
  external_ip :: "string option"
  logical_ip :: "string option"
  logical_port :: "string option"
  priority :: "string option"
  match_field :: "string option"
  action :: "string option"
  raw_rule :: string
  parsed_successfully :: bool
  egressip_related :: bool

definition truthy :: "string option \<Rightarrow> bool" where
  "truthy v = (case v of None \<Rightarrow> False | Some s \<Rightarrow> s \<noteq> [])"

definition is_egressip_related_snat :: "string \<Rightarrow> bool" where
  "is_egressip_related_snat rule_line =
     (py_contains ''egressip'' (py_lower rule_line)
      \<or> (py_contains ''egress'' (py_lower rule_line) \<and> py_contains ''ip'' (py_lower rule_line))
      \<or> search_ip rule_line)"

definition is_egressip_related_lrp :: "string \<Rightarrow> bool" where
  "is_egressip_related_lrp rule_line =
     (py_contains ''egressip'' (py_lower rule_line)
      \<or> (py_contains ''egress'' (py_lower rule_line) \<and> py_contains ''ip'' (py_lower rule_line))
      \<or> py_contains ''reroute'' (py_lower rule_line)
      \<or> search_ip rule_line)"

definition failed_rule :: "string \<Rightarrow> string \<Rightarrow> rule" where
  "failed_rule kind rule_line =
     \<lparr> rule_type = kind, external_ip = None, logical_ip = None, logical_port = None,
       priority = None, match_field = None, action = None,
       raw_rule = rule_line, parsed_successfully = False, egressip_related = False \<rparr>"

text \<open>
  \<open>_parse_egressip_snat_rule\<close>. Nothing in its \<open>try\<close> block raises on a string,
  and the block's handler falls through to the failure record, so the function
  returns a record on every line.
\<close>

definition parse_egressip_snat_rule :: "string \<Rightarrow> rule" where
  "parse_egressip_snat_rule rule_line =
     (case py_split (py_strip rule_line) of
        p0 # p1 # p2 # p3 # _ \<Rightarrow>
          if py_lower p0 = ''snat''
          then \<lparr> rule_type = ''snat'', external_ip = Some p1, logical_ip = Some p2,
                 logical_port = Some p3, priority = None, match_field = None, action = None,
                 raw_rule = rule_line, parsed_successfully = True,
                 egressip_related = is_egressip_related_snat rule_line \<rparr>
          else failed_rule ''snat'' rule_line
      | _ \<Rightarrow> failed_rule ''snat'' rule_line)"

text \<open>\<open>_parse_egressip_lrp_rule\<close>: priority, match and action, split at most twice.\<close>

definition parse_egressip_lrp_rule :: "string \<Rightarrow> rule" where
  "parse_egressip_lrp_rule rule_line =
     (case py_split_max 2 (py_strip rule_line) of
        p0 # p1 # p2 # _ \<Rightarrow>
          \<lparr> rule_type = ''lrp'', external_ip = None, logical_ip = None, logical_port = None,
            priority = Some p0, match_field = Some p1, action = Some p2,
            raw_rule = rule_line, parsed_successfully = True,
            egressip_related = is_egressip_related_lrp rule_line \<rparr>
      | _ \<Rightarrow> failed_rule ''lrp'' rule_line)"

section \<open>Per-node analysis\<close>

text \<open>
  \<open>_analyze_egressip_snat_rules\<close>. The source collects the addresses in Python
  sets and returns them as lists in the sets' order, which is not fixed; they are
  sets here.
\<close>

record snat_analysis =
  snat_total_rules :: nat
  snat_parsed_successfully :: nat
  snat_egressip_related :: nat
  external_ips :: "string set"
  logical_ips :: "string set"
  snat_potential_issues :: "string list"

definition analyze_egressip_snat_rules :: "rule list \<Rightarrow> snat_analysis" where
  "analyze_egressip_snat_rules snat_rules =
     \<lparr> snat_total_rules = length snat_rules,
       snat_parsed_successfully = length (filter parsed_successfully snat_rules),
       snat_egressip_related = length (filter egressip_related snat_rules),
       external_ips =
         set (map (\<lambda>r. the (external_ip r))
                (filter (\<lambda>r. parsed_successfully r \<and> truthy (external_ip r)) snat_rules)),
       logical_ips =
         set (map (\<lambda>r. the (logical_ip r))
                (filter (\<lambda>r. parsed_successfully r \<and> truthy (logical_ip r)) snat_rules)),
       snat_potential_issues =
         map (\<lambda>r. ''Failed to parse rule: '' @ raw_rule r)
           (filter (\<lambda>r. \<not> parsed_successfully r) snat_rules) \<rparr>"

text \<open>
  \<open>_analyze_egressip_lrp_rules\<close>: the loop over the rules, with the priorities,
  the count of each action's first word and the issues as its state. The
  priority is turned into an integer here, and a priority that is not one is
  reported as an issue. An action made of whitespace only has no first word:
  \<open>rule["action"].split()[0]\<close> raises \<open>IndexError\<close>, which this function does
  not handle.
\<close>

datatype py_error = IndexError | ZeroDivisionError | Raised string

record lrp_analysis =
  lrp_total_rules :: nat
  lrp_parsed_successfully :: nat
  lrp_egressip_related :: nat
  priorities :: "int list"
  action_types :: "(string \<times> nat) list"
  lrp_potential_issues :: "string list"
  priority_stats :: "int \<times> int \<times> nat"

definition count_action :: "string \<Rightarrow> (string \<times> nat) list \<Rightarrow> (string \<times> nat) list" where
  "count_action a m =
     (case map_of m a of
        None \<Rightarrow> m @ [(a, 1)]
      | Some n \<Rightarrow> map (\<lambda>(k, v). if k = a then (k, v + 1) else (k, v)) m)"

type_synonym lrp_loop_state = "int list \<times> (string \<times> nat) list \<times> string list"

fun lrp_rule_step :: "rule \<Rightarrow> lrp_loop_state \<Rightarrow> py_error + lrp_loop_state" where
  "lrp_rule_step r (ps, acts, issues) =
     (if parsed_successfully r
      then
        (let (ps', issues') =
               (if truthy (priority r)
                then (case py_int (the (priority r)) of
                        Some n \<Rightarrow> (ps @ [n], issues)
                      | None \<Rightarrow> (ps, issues @ [''Invalid priority: '' @ the (priority r)]))
                else (ps, issues))
         in if truthy (action r)
            then (case py_split (the (action r)) of
                    [] \<Rightarrow> Inl IndexError
                  | a # _ \<Rightarrow> Inr (ps', count_action a acts, issues'))
            else Inr (ps', acts, issues'))
      else Inr (ps, acts, issues @ [''Failed to parse rule: '' @ raw_rule r]))"

fun lrp_rule_loop :: "rule list \<Rightarrow> lrp_loop_state \<Rightarrow> py_error + lrp_loop_state" where
  "lrp_rule_loop [] st = Inr st"
| "lrp_rule_loop (r # rs) st =
     (case lrp_rule_step r st of Inl e \<Rightarrow> Inl e | Inr st' \<Rightarrow> lrp_rule_loop rs st')"

definition analyze_egressip_lrp_rules :: "rule list \<Rightarrow> py_error + lrp_analysis" where
  "analyze_egressip_lrp_rules lrp_rules =
     (case lrp_rule_loop lrp_rules ([], [], []) of
        Inl e \<Rightarrow> Inl e
      | Inr (ps, acts, issues) \<Rightarrow>
          Inr \<lparr> lrp_total_rules = length lrp_rules,
                lrp_parsed_successfully = length (filter parsed_successfully lrp_rules),
                lrp_egressip_related = length (filter egressip_related lrp_rules),
                priorities = ps,
                action_types = acts,
                lrp_potential_issues = issues,
                priority_stats =
                  (if ps = [] then (0, 0, 0)
                   else (Min (set ps), Max (set ps), card (set ps))) \<rparr>)"

section \<open>Consistency between NAT and policy rules\<close>

text \<open>
  The two address sets of \<open>_check_egressip_rule_consistency\<close>: the external
  addresses of the NAT rules that parsed, have an external address and are
  related to the feature, and the addresses found in the match and action text of
  the policy rules that parsed and are related.
\<close>

definition snat_external_ips :: "rule list \<Rightarrow> string set" where
  "snat_external_ips snat_rules =
     set (map (\<lambda>r. the (external_ip r))
            (filter (\<lambda>r. parsed_successfully r \<and> truthy (external_ip r) \<and> egressip_related r)
               snat_rules))"

definition get_or_empty :: "string option \<Rightarrow> string" where
  "get_or_empty v = (case v of None \<Rightarrow> [] | Some s \<Rightarrow> s)"

definition lrp_ip_references :: "rule list \<Rightarrow> string set" where
  "lrp_ip_references lrp_rules =
     set (concat (map (\<lambda>r. findall_ip (get_or_empty (match_field r) @ '' '' @ get_or_empty (action r)))
                    (filter (\<lambda>r. parsed_successfully r \<and> egressip_related r) lrp_rules)))"

text \<open>
  The score is a Python float; it is a rational here, the quotient exact. The
  quotient of two set sizes is rounded to the nearest double by Python, and for
  sets of fewer than \<open>10^15\<close> addresses the comparisons with \<open>0.8\<close> and \<open>0.5\<close>
  come out the same on the rounded and on the exact quotient.
\<close>

record consistency =
  snat_lrp_correlation :: string
  issues_found :: "string list"
  consistency_score :: rat
  details_snat_external_ips :: "string set"
  details_lrp_ip_references :: "string set"
  details_correlated_ips :: "string set"

definition check_egressip_rule_consistency :: "rule list \<Rightarrow> rule list \<Rightarrow> consistency" where
  "check_egressip_rule_consistency snat_rules lrp_rules =
     (let a = snat_external_ips snat_rules;
          b = lrp_ip_references lrp_rules;
          snat_in_lrp = a \<inter> b;
          base = \<lparr> snat_lrp_correlation = ''unknown'', issues_found = [],
                   consistency_score = 0,
                   details_snat_external_ips = a, details_lrp_ip_references = b,
                   details_correlated_ips = snat_in_lrp \<rparr>
      in if a \<noteq> {} \<and> b \<noteq> {}
         then
           (let consistency_ratio = of_nat (card snat_in_lrp) / of_nat (card a)
            in if consistency_ratio > 8 / 10
               then base \<lparr> consistency_score := consistency_ratio,
                           snat_lrp_correlation := ''good'' \<rparr>
               else if consistency_ratio > 5 / 10
               then base \<lparr> consistency_score := consistency_ratio,
                           snat_lrp_correlation := ''moderate'' \<rparr>
               else base \<lparr> consistency_score := consistency_ratio,
                           snat_lrp_correlation := ''poor'',
                           issues_found := [''Low correlation between EgressIP SNAT and LRP rules''] \<rparr>)
         else base)"

section \<open>Validation against the assigned addresses\<close>

text \<open>
  \<open>_get_egressip_context\<close>, for a listing of the EgressIP objects that succeeded.
  An object has a name, the addresses its specification declares
  (\<open>spec.egressIPs\<close>) and its status items, each of which may name the address
  that was assigned (\<open>egressIP\<close>). The context collects the addresses of the
  status items into \<open>total_assigned_ips\<close>, a Python set turned into a list
  (the order of that list is not fixed and no reader depends on it); the declared
  addresses stay with the objects.
\<close>

record status_item =
  egressIP :: "string option"
  assigned_node :: "string option"

record egressip_object =
  object_name :: string
  spec_ips :: "string list"
  status_items :: "status_item list"

record egressip_context =
  available :: bool
  egressip_objects :: "egressip_object list"
  total_assigned_ips :: "string list"
  total_egressip_count :: nat
  context_error :: "string option"

definition assigned_ips_of :: "egressip_object \<Rightarrow> string list" where
  "assigned_ips_of obj =
     concat (map (\<lambda>item. case egressIP item of None \<Rightarrow> [] | Some ip \<Rightarrow> [ip]) (status_items obj))"

definition get_egressip_context :: "egressip_object list \<Rightarrow> egressip_context" where
  "get_egressip_context items =
     \<lparr> available = True,
       egressip_objects = items,
       total_assigned_ips = remdups (concat (map assigned_ips_of items)),
       total_egressip_count = length items,
       context_error = None \<rparr>"

text \<open>\<open>_validate_rules_against_egressips\<close>.\<close>

record validation_summary =
  total_assigned_egressips :: nat
  total_snat_external_ips :: nat
  missing_rules_count :: nat
  unexpected_rules_count :: nat
  validation_passed :: bool

record validation =
  validation_possible :: bool
  missing_snat_rules :: "string set"
  unexpected_snat_rules :: "string set"
  summary :: "validation_summary option"
  validation_error :: "string option"

definition validate_rules_against_egressips ::
    "rule list \<Rightarrow> rule list \<Rightarrow> egressip_context \<Rightarrow> validation" where
  "validate_rules_against_egressips snat_rules lrp_rules ctx =
     (if \<not> available ctx
      then \<lparr> validation_possible = False, missing_snat_rules = {}, unexpected_snat_rules = {},
             summary = None,
             validation_error =
               Some (case context_error ctx of
                       None \<Rightarrow> ''EgressIP context not available''
                     | Some e \<Rightarrow> e) \<rparr>
      else
        (let assigned_ips = set (total_assigned_ips ctx);
             a = snat_external_ips snat_rules;
             missing = assigned_ips - a;
             unexpected = a - assigned_ips
         in \<lparr> validation_possible = True, missing_snat_rules = missing,
              unexpected_snat_rules = unexpected,
              summary =
                Some \<lparr> total_assigned_egressips = card assigned_ips,
                       total_snat_external_ips = card a,
                       missing_rules_count = card missing,
                       unexpected_rules_count = card unexpected,
                       validation_passed = (card missing = 0 \<and> card unexpected = 0) \<rparr>,
              validation_error = None \<rparr>))"

section \<open>Snapshots and their hashes\<close>

text \<open>
  \<open>repr\<close> of a string, as \<open>str\<close> of a list applies it to each item: double
  quotes when the string holds a single quote and no double quote, single quotes
  otherwise; the quote in use and the backslash are escaped, tab, newline and
  carriage return are written \<open>\t\<close>, \<open>\n\<close>, \<open>\r\<close>, and every other code point
  that is not printable (below 32, 127 to 160, and 173) is written \<open>\xhh\<close>.
\<close>

definition hex_digit :: "nat \<Rightarrow> char" where
  "hex_digit n = (if n < 10 then char_of (48 + n) else char_of (87 + n))"

definition repr_char :: "char \<Rightarrow> char \<Rightarrow> string" where
  "repr_char quote c =
     (let n = (of_char c :: nat)
      in if c = quote \<or> n = 92 then [char_of (92 :: nat), c]
         else if n = 9 then [char_of (92 :: nat), CHR ''t'']
         else if n = 10 then [char_of (92 :: nat), CHR ''n'']
         else if n = 13 then [char_of (92 :: nat), CHR ''r'']
         else if n < 32 \<or> (127 \<le> n \<and> n \<le> 160) \<or> n = 173
         then [char_of (92 :: nat), CHR ''x'', hex_digit (n div 16), hex_digit (n mod 16)]
         else [c])"

definition py_repr :: "string \<Rightarrow> string" where
  "py_repr s =
     (let quote = (if char_of (39 :: nat) \<in> set s \<and> char_of (34 :: nat) \<notin> set s
                   then char_of (34 :: nat) else char_of (39 :: nat))
      in [quote] @ concat (map (repr_char quote) s) @ [quote])"

fun join_comma :: "string list \<Rightarrow> string" where
  "join_comma [] = []"
| "join_comma [x] = x"
| "join_comma (x # y # ys) = x @ '', '' @ join_comma (y # ys)"

definition py_str_list :: "string list \<Rightarrow> string" where
  "py_str_list xs = ''['' @ join_comma (map py_repr xs) @ '']''"

text \<open>
  \<open>_take_egressip_rule_snapshot\<close>, from the two rule lists it has fetched and the
  time it reads. \<open>hash\<close> is the interpreter's built-in hash of a string as it is
  in the running process; \<open>sorted\<close> orders strings by code point, which is the
  lexicographic order of character lists.
\<close>

record snapshot =
  timestamp :: string
  snat_count :: nat
  lrp_count :: nat
  egressip_snat_count :: nat
  egressip_lrp_count :: nat
  snat_rules_hash :: int
  lrp_rules_hash :: int

definition rules_hash :: "(string \<Rightarrow> int) \<Rightarrow> rule list \<Rightarrow> int" where
  "rules_hash hash rules = hash (py_str_list (sort (map raw_rule rules)))"

definition take_egressip_rule_snapshot ::
    "(string \<Rightarrow> int) \<Rightarrow> string \<Rightarrow> rule list \<Rightarrow> rule list \<Rightarrow> snapshot" where
  "take_egressip_rule_snapshot hash now snat_rules lrp_rules =
     \<lparr> timestamp = now,
       snat_count = length snat_rules,
       lrp_count = length lrp_rules,
       egressip_snat_count = length (filter egressip_related snat_rules),
       egressip_lrp_count = length (filter egressip_related lrp_rules),
       snat_rules_hash = rules_hash hash snat_rules,
       lrp_rules_hash = rules_hash hash lrp_rules \<rparr>"

section \<open>Monitoring\<close>

text \<open>
  \<open>_analyze_egressip_rule_changes\<close>: for each pair of consecutive snapshots the
  attributes that differ, in the order the source tests them; a pair with no
  difference gives no event.
\<close>

datatype change =
    Snat_Count_Change nat nat string
  | Lrp_Count_Change nat nat string
  | Egressip_Snat_Count_Change nat nat string
  | Egressip_Lrp_Count_Change nat nat string
  | Snat_Content_Change string
  | Lrp_Content_Change string

definition snapshot_changes :: "snapshot \<Rightarrow> snapshot \<Rightarrow> change list" where
  "snapshot_changes prev cur =
     (if snat_count prev \<noteq> snat_count cur
      then [Snat_Count_Change (snat_count prev) (snat_count cur) (timestamp cur)] else [])
     @ (if lrp_count prev \<noteq> lrp_count cur
        then [Lrp_Count_Change (lrp_count prev) (lrp_count cur) (timestamp cur)] else [])
     @ (if egressip_snat_count prev \<noteq> egressip_snat_count cur
        then [Egressip_Snat_Count_Change (egressip_snat_count prev) (egressip_snat_count cur)
                (timestamp cur)]
        else [])
     @ (if egressip_lrp_count prev \<noteq> egressip_lrp_count cur
        then [Egressip_Lrp_Count_Change (egressip_lrp_count prev) (egressip_lrp_count cur)
                (timestamp cur)]
        else [])
     @ (if snat_rules_hash prev \<noteq> snat_rules_hash cur
        then [Snat_Content_Change (timestamp cur)] else [])
     @ (if lrp_rules_hash prev \<noteq> lrp_rules_hash cur
        then [Lrp_Content_Change (timestamp cur)] else [])"

fun change_events :: "snapshot list \<Rightarrow> change list list" where
  "change_events (prev # cur # rest) =
     (if snapshot_changes prev cur = [] then change_events (cur # rest)
      else snapshot_changes prev cur # change_events (cur # rest))"
| "change_events _ = []"

record change_analysis =
  changes_detected :: bool
  total_change_events :: "nat option"
  changes :: "change list list"
  reason :: "string option"

definition analyze_egressip_rule_changes :: "snapshot list \<Rightarrow> change_analysis" where
  "analyze_egressip_rule_changes snapshots =
     (if length snapshots < 2
      then \<lparr> changes_detected = False, total_change_events = None, changes = [],
             reason = Some ''Insufficient snapshots'' \<rparr>
      else \<lparr> changes_detected = (0 < length (change_events snapshots)),
             total_change_events = Some (length (change_events snapshots)),
             changes = change_events snapshots,
             reason = None \<rparr>)"

definition assess_egressip_rule_stability :: "change_analysis \<Rightarrow> string" where
  "assess_egressip_rule_stability ca =
     (if \<not> changes_detected ca then ''stable''
      else if the (total_change_events ca) \<le> 2 then ''mostly_stable''
      else ''unstable'')"

text \<open>
  \<open>monitor_egressip_rule_changes\<close>. \<open>sample k\<close> is what the \<open>k\<close>-th call of
  \<open>_take_egressip_rule_snapshot\<close> gives: a snapshot, or the exception it raises.
  The whole body stands in one \<open>try\<close> whose handler builds the error result from
  the exception and the node's name alone. The waiting between two samples and
  the results' own time stamps are left out. \<open>//\<close> is the floor division of
  \<open>div\<close> on integers, and raises on a zero divisor.
\<close>

record monitor_result =
  status :: string
  error :: "py_error option"
  node_name :: string
  monitoring_duration :: "int option"
  snapshots_taken :: "nat option"
  result_change_analysis :: "change_analysis option"
  stability_assessment :: "string option"
  detailed_snapshots :: "snapshot list option"

definition monitor_error :: "string \<Rightarrow> py_error \<Rightarrow> monitor_result" where
  "monitor_error node e =
     \<lparr> status = ''error'', error = Some e, node_name = node, monitoring_duration = None,
       snapshots_taken = None, result_change_analysis = None, stability_assessment = None,
       detailed_snapshots = None \<rparr>"

fun take_snapshots ::
    "(nat \<Rightarrow> py_error + snapshot) \<Rightarrow> nat \<Rightarrow> nat \<Rightarrow> snapshot list \<Rightarrow> py_error + snapshot list" where
  "take_snapshots sample k 0 snapshots = Inr snapshots"
| "take_snapshots sample k (Suc n) snapshots =
     (case sample k of
        Inl e \<Rightarrow> Inl e
      | Inr s \<Rightarrow> take_snapshots sample (Suc k) n (snapshots @ [s]))"

definition monitor_egressip_rule_changes ::
    "(nat \<Rightarrow> py_error + snapshot) \<Rightarrow> string \<Rightarrow> int \<Rightarrow> monitor_result" where
  "monitor_egressip_rule_changes sample node duration_seconds =
     (case sample 0 of
        Inl e \<Rightarrow> monitor_error node e
      | Inr initial_snapshot \<Rightarrow>
          (let check_interval = min 30 (duration_seconds div 10)
           in if check_interval = 0 then monitor_error node ZeroDivisionError
              else
                (let checks_remaining = duration_seconds div check_interval
                 in case take_snapshots sample 1 (nat checks_remaining) [initial_snapshot] of
                      Inl e \<Rightarrow> monitor_error node e
                    | Inr snapshots \<Rightarrow>
                        \<lparr> status = ''success'', error = None, node_name = node,
                          monitoring_duration = Some duration_seconds,
                          snapshots_taken = Some (length snapshots),
                          result_change_analysis = Some (analyze_egressip_rule_changes snapshots),
                          stability_assessment =
                            Some (assess_egressip_rule_stability
                                    (analyze_egressip_rule_changes snapshots)),
                          detailed_snapshots = Some snapshots \<rparr>)))"

text \<open>A snapshot for the examples below.\<close>

definition quiet_snapshot :: snapshot where
  "quiet_snapshot =
     \<lparr> timestamp = ''2024-01-01T00:00:00'', snat_count = 1, lrp_count = 1,
       egressip_snat_count = 1, egressip_lrp_count = 1,
       snat_rules_hash = 11, lrp_rules_hash = 12 \<rparr>"

section \<open>Comparison across nodes\<close>

text \<open>
  What \<open>analyze_node_rules\<close> returns for a node, as far as the comparison reads
  it: on success the two rule counts and the two analyses, otherwise an error.
  A dictionary keyed by node name is a list of pairs in insertion order.
\<close>

datatype node_analysis =
    Node_Success "nat \<times> nat" snat_analysis lrp_analysis
  | Node_Error string

definition analyze_node_rules :: "rule list \<Rightarrow> rule list \<Rightarrow> node_analysis" where
  "analyze_node_rules snat_rules lrp_rules =
     (case analyze_egressip_lrp_rules lrp_rules of
        Inl e \<Rightarrow> Node_Error ''error''
      | Inr la \<Rightarrow>
          Node_Success (length snat_rules, length lrp_rules)
            (analyze_egressip_snat_rules snat_rules) la)"

record node_content =
  content_snat_external_ips :: "string set"
  content_lrp_priorities :: "int list"

fun compare_egressip_rule_counts ::
    "(string \<times> node_analysis) list \<Rightarrow> (string \<times> nat \<times> nat) list" where
  "compare_egressip_rule_counts [] = []"
| "compare_egressip_rule_counts ((n, Node_Success rc sa la) # rest) =
     (n, rc) # compare_egressip_rule_counts rest"
| "compare_egressip_rule_counts ((n, Node_Error e) # rest) = compare_egressip_rule_counts rest"

fun compare_egressip_rule_content ::
    "(string \<times> node_analysis) list \<Rightarrow> (string \<times> node_content) list" where
  "compare_egressip_rule_content [] = []"
| "compare_egressip_rule_content ((n, Node_Success rc sa la) # rest) =
     (n, \<lparr> content_snat_external_ips = external_ips sa,
           content_lrp_priorities = priorities la \<rparr>)
     # compare_egressip_rule_content rest"
| "compare_egressip_rule_content ((n, Node_Error e) # rest) = compare_egressip_rule_content rest"

datatype inconsistency =
    Rule_Count_Mismatch "(string \<times> nat \<times> nat) list"
  | Missing_Snat_Ips string "string set"

definition all_snat_ips :: "(string \<times> node_content) list \<Rightarrow> string set" where
  "all_snat_ips content = \<Union> (set (map (\<lambda>(n, d). content_snat_external_ips d) content))"

definition missing_on_node :: "string set \<Rightarrow> string \<times> node_content \<Rightarrow> inconsistency list" where
  "missing_on_node all_ips nd =
     (let missing_ips = all_ips - content_snat_external_ips (snd nd)
      in if missing_ips \<noteq> {} then [Missing_Snat_Ips (fst nd) missing_ips] else [])"

definition identify_egressip_inconsistencies ::
    "(string \<times> nat \<times> nat) list \<Rightarrow> (string \<times> node_content) list \<Rightarrow> inconsistency list" where
  "identify_egressip_inconsistencies rule_count_comparison rule_content_comparison =
     (if 1 < card (set (map snd rule_count_comparison))
      then [Rule_Count_Mismatch rule_count_comparison] else [])
     @ (if 1 < length rule_content_comparison
        then concat (map (missing_on_node (all_snat_ips rule_content_comparison))
                       rule_content_comparison)
        else [])"

definition compare_egressip_rules_across_nodes ::
    "(string \<times> node_analysis) list \<Rightarrow> inconsistency list" where
  "compare_egressip_rules_across_nodes node_analyses =
     identify_egressip_inconsistencies
       (compare_egressip_rule_counts node_analyses)
       (compare_egressip_rule_content node_analyses)"

text \<open>
  The addresses a node's analysis contributes to the comparison (none when the
  analysis failed), and whether the analysis succeeded.
\<close>

definition node_external_ips :: "node_analysis \<Rightarrow> string set" where
  "node_external_ips a =
     (case a of Node_Success rc sa la \<Rightarrow> external_ips sa | Node_Error e \<Rightarrow> {})"

definition node_succeeded :: "node_analysis \<Rightarrow> bool" where
  "node_succeeded a = (case a of Node_Success rc sa la \<Rightarrow> True | Node_Error e \<Rightarrow> False)"

text \<open>
  Two nodes for the examples below: the second has every NAT rule of the first
  and one more.
\<close>

definition node1_analysis :: node_analysis where
  "node1_analysis =
     analyze_node_rules [parse_egressip_snat_rule ''snat 10.0.0.5 10.244.0.5 k8s-node1''] []"

definition node2_analysis :: node_analysis where
  "node2_analysis =
     analyze_node_rules
       [parse_egressip_snat_rule ''snat 10.0.0.5 10.244.0.5 k8s-node1'',
        parse_egressip_snat_rule ''snat 10.0.0.6 10.244.1.7 k8s-node2''] []"

section \<open>Trend of a series\<close>

text \<open>
  \<open>_simple_trend\<close> of the metrics collector computes with the interpreter's
  numbers: \<open>sum\<close>, true division, subtraction, multiplication by the integer
  100 and comparisons with the integers 0, 10 and -10. The arithmetic is a
  parameter here: the operations on some type of numbers, and \<open>ar_int\<close> for an
  integer taken as one of them.
\<close>

record 'f arithmetic =
  ar_sum :: "'f list \<Rightarrow> 'f"
  ar_div :: "'f \<Rightarrow> 'f \<Rightarrow> 'f"
  ar_sub :: "'f \<Rightarrow> 'f \<Rightarrow> 'f"
  ar_mul :: "'f \<Rightarrow> 'f \<Rightarrow> 'f"
  ar_int :: "int \<Rightarrow> 'f"
  ar_less :: "'f \<Rightarrow> 'f \<Rightarrow> bool"

definition first_half_avg :: "'f arithmetic \<Rightarrow> 'f list \<Rightarrow> 'f" where
  "first_half_avg ar values =
     (let mid_point = length values div 2
      in if 0 < mid_point
         then ar_div ar (ar_sum ar (take mid_point values)) (ar_int ar (int mid_point))
         else ar_int ar 0)"

definition second_half_avg :: "'f arithmetic \<Rightarrow> 'f list \<Rightarrow> 'f" where
  "second_half_avg ar values =
     (let mid_point = length values div 2
      in ar_div ar (ar_sum ar (drop mid_point values))
           (ar_int ar (int (length values - mid_point))))"

definition simple_trend :: "'f arithmetic \<Rightarrow> 'f list \<Rightarrow> string" where
  "simple_trend ar values =
     (if length values < 2 then ''insufficient_data''
      else
        (let diff_percent =
               (if ar_less ar (ar_int ar 0) (first_half_avg ar values)
                then ar_mul ar
                       (ar_div ar
                          (ar_sub ar (second_half_avg ar values) (first_half_avg ar values))
                          (first_half_avg ar values))
                       (ar_int ar 100)
                else ar_int ar 0)
         in if ar_less ar (ar_int ar 10) diff_percent then ''increasing''
            else if ar_less ar diff_percent (ar_int ar (- 10)) then ''decreasing''
            else ''stable''))"

text \<open>
  The arithmetic of Python floats, for results in the normal range of a double:
  a double is the rational it stands for, and each operation gives the exact
  result rounded to the nearest double, ties to the even significand.
  \<open>bit_length n\<close> is the number of binary digits of a positive \<open>n\<close>; \<open>exponent_of x\<close>
  is the \<open>e\<close> with \<open>2^e \<le> x < 2^(e+1)\<close> for a positive \<open>x\<close>; \<open>binary64\<close> rounds
  to 53 significant bits. \<open>sum\<close> adds from left to right, starting from 0.
\<close>

function bit_length :: "int \<Rightarrow> nat" where
  "bit_length n = (if n \<le> 0 then 0 else Suc (bit_length (n div 2)))"
  by pat_completeness auto
termination
  by (relation "measure nat") auto

definition pow2 :: "int \<Rightarrow> rat" where
  "pow2 e = (if 0 \<le> e then 2 ^ nat e else 1 / 2 ^ nat (- e))"

definition exponent_of :: "rat \<Rightarrow> int" where
  "exponent_of x =
     (let (a, b) = quotient_of x;
          k = int (bit_length a) - int (bit_length b)
      in if pow2 k \<le> x then k else k - 1)"

definition round_half_even :: "rat \<Rightarrow> int" where
  "round_half_even x =
     (let f = \<lfloor>x\<rfloor>; d = x - of_int f
      in if d < 1 / 2 then f
         else if 1 / 2 < d then f + 1
         else if even f then f else f + 1)"

definition binary64 :: "rat \<Rightarrow> rat" where
  "binary64 x =
     (if x = 0 then 0
      else
        (let ulp = pow2 (exponent_of \<bar>x\<bar> - 52)
         in sgn x * of_int (round_half_even (\<bar>x\<bar> / ulp)) * ulp))"

definition double_arithmetic :: "rat arithmetic" where
  "double_arithmetic =
     \<lparr> ar_sum = foldl (\<lambda>acc x. binary64 (acc + x)) 0,
       ar_div = (\<lambda>x y. binary64 (x / y)),
       ar_sub = (\<lambda>x y. binary64 (x - y)),
       ar_mul = (\<lambda>x y. binary64 (x * y)),
       ar_int = (\<lambda>n. binary64 (of_int n)),
       ar_less = (\<lambda>x y. x < y) \<rparr>"

section \<open>Facts about splitting\<close>

lemma py_split_aux_spaces:
  "\<forall>c \<in> set w. py_isspace c \<Longrightarrow> py_split_aux cur w = (if cur = [] then [] else [cur])"
proof (induction w arbitrary: cur)
  case Nil
  then show ?case by simp
next
  case (Cons c w)
  then show ?case by simp
qed

lemma py_split_aux_trailing:
  "\<forall>c \<in> set w. py_isspace c \<Longrightarrow> py_split_aux cur (t @ w) = py_split_aux cur t"
proof (induction t arbitrary: cur)
  case Nil
  then show ?case by (simp add: py_split_aux_spaces)
next
  case (Cons c t)
  then show ?case by simp
qed

lemma py_split_aux_leading:
  "py_split_aux [] (dropWhile py_isspace s) = py_split_aux [] s"
  by (induction s) simp_all

lemma rstrip_decomp:
  "\<exists>w. s = rev (dropWhile P (rev s)) @ w \<and> (\<forall>c \<in> set w. P c)"
proof -
  have "rev (takeWhile P (rev s) @ dropWhile P (rev s)) = s"
    by simp
  then have "s = rev (dropWhile P (rev s)) @ rev (takeWhile P (rev s))"
    by (simp only: rev_append)
  moreover have "\<forall>c \<in> set (rev (takeWhile P (rev s))). P c"
    by (auto dest: set_takeWhileD)
  ultimately show ?thesis by blast
qed

text \<open>Stripping a line first does not change its tokens.\<close>

lemma py_split_strip: "py_split (py_strip s) = py_split s"
proof -
  obtain w where w: "dropWhile py_isspace s = rev (dropWhile py_isspace (rev (dropWhile py_isspace s))) @ w"
    and sp: "\<forall>c \<in> set w. py_isspace c"
    using rstrip_decomp [of "dropWhile py_isspace s" py_isspace] by blast
  have "py_split_aux [] (py_strip s) = py_split_aux [] (py_strip s @ w)"
    using sp by (simp add: py_split_aux_trailing)
  also have "py_strip s @ w = dropWhile py_isspace s"
    using w by (simp add: py_strip_def)
  finally show ?thesis
    by (simp add: py_split_def py_split_aux_leading)
qed

section \<open>The NAT parser on lines it cannot parse\<close>

text \<open>
  Claim C9. On every line the NAT parser returns a record (it is a total
  function: no line makes it raise) whose raw text is the line itself, and when
  the line has fewer than 4 whitespace-delimited tokens, or its first token is not
  \<open>snat\<close> in any mix of cases, the record says the parse failed.
\<close>

theorem parse_snat_rule_failure:
  "raw_rule (parse_egressip_snat_rule line) = line \<and>
   (length (py_split line) < 4 \<or> map py_lower (take 1 (py_split line)) \<noteq> [''snat'']
    \<longrightarrow> \<not> parsed_successfully (parse_egressip_snat_rule line))"
  by (auto simp: parse_egressip_snat_rule_def failed_rule_def py_split_strip
           split: list.splits)

theorem parse_snat_rule_failure_witness:
  "length (py_split '' snat 10.0.0.5 '') < 4 \<and>
   raw_rule (parse_egressip_snat_rule '' snat 10.0.0.5 '') = '' snat 10.0.0.5 '' \<and>
   \<not> parsed_successfully (parse_egressip_snat_rule '' snat 10.0.0.5 '')"
proof -
  have h: "length (py_split '' snat 10.0.0.5 '') < 4" by code_simp
  show ?thesis
    using h parse_snat_rule_failure [of "'' snat 10.0.0.5 ''"] by blast
qed

section \<open>Monitoring sessions that fail\<close>

text \<open>
  Claim C10. For a duration from 0 up to 9 seconds the check interval
  \<open>min(30, duration_seconds // 10)\<close> is 0, the division by it raises
  \<open>ZeroDivisionError\<close>, and the result is the error result: status \<open>error\<close> and
  no snapshots, although the initial snapshot had been taken.
\<close>

theorem monitor_short_duration_is_error:
  assumes "0 \<le> duration_seconds" and "duration_seconds < 10"
    and "sample 0 = Inr initial_snapshot"
  shows "min 30 (duration_seconds div 10) = 0
    \<and> status (monitor_egressip_rule_changes sample node duration_seconds) = ''error''
    \<and> error (monitor_egressip_rule_changes sample node duration_seconds) = Some ZeroDivisionError
    \<and> detailed_snapshots (monitor_egressip_rule_changes sample node duration_seconds) = None
    \<and> snapshots_taken (monitor_egressip_rule_changes sample node duration_seconds) = None"
proof -
  have "duration_seconds div 10 = 0" using assms by simp
  then show ?thesis
    using assms(3) by (simp add: monitor_egressip_rule_changes_def monitor_error_def)
qed

theorem monitor_short_duration_is_error_witness:
  "(0::int) \<le> 9 \<and> (9::int) < 10
   \<and> min 30 ((9::int) div 10) = 0
   \<and> status (monitor_egressip_rule_changes (\<lambda>k. Inr quiet_snapshot) ''worker-0'' 9) = ''error''
   \<and> error (monitor_egressip_rule_changes (\<lambda>k. Inr quiet_snapshot) ''worker-0'' 9)
       = Some ZeroDivisionError
   \<and> detailed_snapshots (monitor_egressip_rule_changes (\<lambda>k. Inr quiet_snapshot) ''worker-0'' 9)
       = None"
  using monitor_short_duration_is_error
          [of 9 "\<lambda>k. Inr quiet_snapshot" quiet_snapshot "''worker-0''"]
  by simp

text \<open>
  Claim C4, as the code has it. The claim says a session that fails after
  snapshots were taken still returns them. It does not: the handler of the
  session's \<open>try\<close> builds its result from the exception and the node's name
  only. A 5-second session takes its initial snapshot, fails on the division by
  the zero interval, and returns no snapshot.
\<close>

theorem monitor_partial_results_counterexample:
  "(\<lambda>k. Inr quiet_snapshot :: py_error + snapshot) 0 = Inr quiet_snapshot
   \<and> status (monitor_egressip_rule_changes (\<lambda>k. Inr quiet_snapshot) ''worker-0'' 5) = ''error''
   \<and> detailed_snapshots (monitor_egressip_rule_changes (\<lambda>k. Inr quiet_snapshot) ''worker-0'' 5)
       = None
   \<and> snapshots_taken (monitor_egressip_rule_changes (\<lambda>k. Inr quiet_snapshot) ''worker-0'' 5)
       = None"
  by (simp add: monitor_egressip_rule_changes_def monitor_error_def)

text \<open>A sample that raises within the schedule makes the sampling loop raise.\<close>

lemma take_snapshots_raises:
  "i \<le> k \<Longrightarrow> k < i + n \<Longrightarrow> sample k = Inl e
   \<Longrightarrow> \<exists>e'. take_snapshots sample i n snapshots = Inl e'"
proof (induction n arbitrary: i snapshots)
  case 0
  then show ?case by simp
next
  case (Suc n)
  show ?case
  proof (cases "sample i")
    case (Inl e0)
    then show ?thesis by simp
  next
    case (Inr s)
    with Suc.prems have "k \<noteq> i" by auto
    with Suc.prems have "Suc i \<le> k" and "k < Suc i + n" by simp_all
    then have "\<exists>e'. take_snapshots sample (Suc i) n (snapshots @ [s]) = Inl e'"
      using Suc.prems(3) by (rule Suc.IH)
    with Inr show ?thesis by simp
  qed
qed

text \<open>
  Claim C4, amended: whenever a monitoring session fails after its initial
  snapshot was taken (the check interval is zero, or one of the later samples,
  the 1st up to the last of the schedule, raises) the result has status
  \<open>error\<close> and holds the error, and no snapshot, no snapshot count and no
  change analysis.
\<close>

theorem monitor_failure_keeps_no_snapshot:
  assumes "sample 0 = Inr initial_snapshot"
    and "min 30 (duration_seconds div 10) = 0
         \<or> (\<exists>k e. 1 \<le> k \<and> int k \<le> duration_seconds div min 30 (duration_seconds div 10)
                  \<and> sample k = Inl e)"
  shows "status (monitor_egressip_rule_changes sample node duration_seconds) = ''error''
    \<and> error (monitor_egressip_rule_changes sample node duration_seconds) \<noteq> None
    \<and> detailed_snapshots (monitor_egressip_rule_changes sample node duration_seconds) = None
    \<and> snapshots_taken (monitor_egressip_rule_changes sample node duration_seconds) = None
    \<and> result_change_analysis (monitor_egressip_rule_changes sample node duration_seconds) = None"
proof (cases "min 30 (duration_seconds div 10) = 0")
  case True
  then show ?thesis
    using assms(1) by (simp add: monitor_egressip_rule_changes_def monitor_error_def)
next
  case False
  with assms(2) obtain k e where k: "1 \<le> k"
    and le: "int k \<le> duration_seconds div min 30 (duration_seconds div 10)"
    and r: "sample k = Inl e"
    by blast
  from le have "k < 1 + nat (duration_seconds div min 30 (duration_seconds div 10))"
    by linarith
  with k r obtain e' where
    "take_snapshots sample 1 (nat (duration_seconds div min 30 (duration_seconds div 10)))
       [initial_snapshot] = Inl e'"
    using take_snapshots_raises by blast
  then show ?thesis
    using assms(1) False
    by (simp add: monitor_egressip_rule_changes_def monitor_error_def Let_def)
qed

theorem monitor_failure_keeps_no_snapshot_witness:
  "(if (0::nat) < 3 then Inr quiet_snapshot else Inl (Raised ''unreachable'')) = Inr quiet_snapshot
   \<and> (1::nat) \<le> 3 \<and> int 3 \<le> 300 div min 30 (300 div 10)
   \<and> status (monitor_egressip_rule_changes
             (\<lambda>k. if k < 3 then Inr quiet_snapshot else Inl (Raised ''unreachable''))
             ''worker-0'' 300) = ''error''
   \<and> detailed_snapshots (monitor_egressip_rule_changes
             (\<lambda>k. if k < 3 then Inr quiet_snapshot else Inl (Raised ''unreachable''))
             ''worker-0'' 300) = None"
proof -
  let ?sample = "\<lambda>k::nat. if k < 3 then Inr quiet_snapshot else Inl (Raised ''unreachable'')"
  have s0: "?sample 0 = Inr quiet_snapshot" by simp
  have f: "min 30 ((300::int) div 10) = 0
         \<or> (\<exists>k e. 1 \<le> k \<and> int k \<le> 300 div min 30 (300 div 10) \<and> ?sample k = Inl e)"
    by (rule disjI2, rule exI [of _ 3], rule exI [of _ "Raised ''unreachable''"]) simp
  show ?thesis
    using monitor_failure_keeps_no_snapshot [of ?sample quiet_snapshot 300 "''worker-0''", OF s0 f]
    by simp
qed

section \<open>Consistency score and validation\<close>

lemma finite_snat_external_ips: "finite (snat_external_ips snat_rules)"
  by (simp add: snat_external_ips_def)

text \<open>
  Claim C1, as the code has it. The claim says that with an empty address set
  on either side the score is reported as a value "undetermined" that is not the
  number 0. The score starts as the float 0.0 and is assigned only when both sets
  are non-empty, so it is the number 0: with no NAT rule and the policy rule
  \<open>100 ip4.src==10.0.0.1 drop\<close> the score is 0 and the label \<open>unknown\<close>.
\<close>

theorem consistency_undetermined_counterexample:
  "snat_external_ips [] = {}
   \<and> consistency_score
        (check_egressip_rule_consistency [] [parse_egressip_lrp_rule ''100 ip4.src==10.0.0.1 drop''])
       = 0
   \<and> snat_lrp_correlation
        (check_egressip_rule_consistency [] [parse_egressip_lrp_rule ''100 ip4.src==10.0.0.1 drop''])
       = ''unknown''"
  by (simp add: check_egressip_rule_consistency_def snat_external_ips_def Let_def)

text \<open>
  Claim C1, amended: when the NAT-side or the policy-side address set is empty,
  the score is the number 0 it started as, the label is \<open>unknown\<close>, which is
  none of good, moderate and poor, and no issue is recorded.
\<close>

theorem consistency_without_addresses:
  assumes "snat_external_ips snat_rules = {} \<or> lrp_ip_references lrp_rules = {}"
  shows "consistency_score (check_egressip_rule_consistency snat_rules lrp_rules) = 0
    \<and> snat_lrp_correlation (check_egressip_rule_consistency snat_rules lrp_rules) = ''unknown''
    \<and> snat_lrp_correlation (check_egressip_rule_consistency snat_rules lrp_rules)
        \<notin> {''good'', ''moderate'', ''poor''}
    \<and> issues_found (check_egressip_rule_consistency snat_rules lrp_rules) = []"
  using assms by (auto simp: check_egressip_rule_consistency_def Let_def)

theorem consistency_without_addresses_witness:
  "lrp_ip_references [] = {}
   \<and> snat_external_ips [parse_egressip_snat_rule ''snat 10.0.0.5 192.168.1.10 port1''] = {''10.0.0.5''}
   \<and> consistency_score
        (check_egressip_rule_consistency
           [parse_egressip_snat_rule ''snat 10.0.0.5 192.168.1.10 port1''] []) = 0
   \<and> snat_lrp_correlation
        (check_egressip_rule_consistency
           [parse_egressip_snat_rule ''snat 10.0.0.5 192.168.1.10 port1''] []) = ''unknown''"
proof -
  have b: "lrp_ip_references [] = {}" by (simp add: lrp_ip_references_def)
  have a: "snat_external_ips [parse_egressip_snat_rule ''snat 10.0.0.5 192.168.1.10 port1''] = {''10.0.0.5''}"
    by code_simp
  show ?thesis
    using a b consistency_without_addresses
      [of "[parse_egressip_snat_rule ''snat 10.0.0.5 192.168.1.10 port1'']" "[]"]
    by simp
qed



text \<open>The validation of any context that is available.\<close>

lemma validation_of_available_context:
  assumes "available ctx"
  shows "missing_snat_rules (validate_rules_against_egressips snat_rules lrp_rules ctx)
      = set (total_assigned_ips ctx) - snat_external_ips snat_rules
    \<and> unexpected_snat_rules (validate_rules_against_egressips snat_rules lrp_rules ctx)
      = snat_external_ips snat_rules - set (total_assigned_ips ctx)
    \<and> map_option validation_passed
        (summary (validate_rules_against_egressips snat_rules lrp_rules ctx))
      = Some (missing_snat_rules (validate_rules_against_egressips snat_rules lrp_rules ctx) = {}
              \<and> unexpected_snat_rules (validate_rules_against_egressips snat_rules lrp_rules ctx) = {})"
  using assms
  by (simp add: validate_rules_against_egressips_def Let_def finite_snat_external_ips)

lemma set_concat_some:
  "set (concat (map (\<lambda>item. case f item of None \<Rightarrow> [] | Some ip \<Rightarrow> [ip]) xs)) =
   {ip. \<exists>item \<in> set xs. f item = Some ip}"
  by (induction xs) (auto split: option.splits)

lemma assigned_ips_of_context:
  "set (total_assigned_ips (get_egressip_context items)) =
   {ip. \<exists>obj \<in> set items. \<exists>item \<in> set (status_items obj). egressIP item = Some ip}"
proof -
  have "set (total_assigned_ips (get_egressip_context items)) =
    (\<Union>obj \<in> set items. set (assigned_ips_of obj))"
    by (simp add: get_egressip_context_def)
  also have "\<dots> = (\<Union>obj \<in> set items. {ip. \<exists>item \<in> set (status_items obj). egressIP item = Some ip})"
    by (simp only: assigned_ips_of_def set_concat_some)
  also have "\<dots> = {ip. \<exists>obj \<in> set items. \<exists>item \<in> set (status_items obj). egressIP item = Some ip}"
    by blast
  finally show ?thesis .
qed

text \<open>
  Claim C7, as the code has it. The claim says the validation reports as
  missing the declared addresses that no relevant NAT rule has. The validation
  never reads the declared addresses (\<open>spec.egressIPs\<close>): it compares the NAT
  rules with the addresses of the status items. An object that declares
  \<open>10.0.0.9\<close> and has no status item yet, on a node with no NAT rule, gives
  nothing missing and a passed validation.
\<close>

theorem validation_declared_counterexample:
  "spec_ips \<lparr> object_name = ''egressip-sample'', spec_ips = [''10.0.0.9''], status_items = [] \<rparr>
     = [''10.0.0.9'']
   \<and> snat_external_ips [] = {}
   \<and> missing_snat_rules
        (validate_rules_against_egressips [] []
           (get_egressip_context
              [\<lparr> object_name = ''egressip-sample'', spec_ips = [''10.0.0.9''],
                 status_items = [] \<rparr>])) = {}
   \<and> map_option validation_passed
        (summary
           (validate_rules_against_egressips [] []
              (get_egressip_context
                 [\<lparr> object_name = ''egressip-sample'', spec_ips = [''10.0.0.9''],
                    status_items = [] \<rparr>]))) = Some True"
  by (simp add: validate_rules_against_egressips_def get_egressip_context_def
        assigned_ips_of_def snat_external_ips_def)

text \<open>
  Claim C7, amended: for every NAT rule list and every listing of the EgressIP
  objects, the validation against the context built from the listing reports as
  missing the assigned addresses (the \<open>egressIP\<close> of the objects' status
  items) that no relevant, parsed NAT rule has as its external address, as
  unexpected the external addresses of those rules that are not assigned, and
  passes exactly when both sets are empty. The declared addresses are not
  consulted.
\<close>

theorem validation_against_assigned:
  "missing_snat_rules
     (validate_rules_against_egressips snat_rules lrp_rules (get_egressip_context items))
     = {ip. \<exists>obj \<in> set items. \<exists>item \<in> set (status_items obj). egressIP item = Some ip}
       - snat_external_ips snat_rules
   \<and> unexpected_snat_rules
     (validate_rules_against_egressips snat_rules lrp_rules (get_egressip_context items))
     = snat_external_ips snat_rules
       - {ip. \<exists>obj \<in> set items. \<exists>item \<in> set (status_items obj). egressIP item = Some ip}
   \<and> map_option validation_passed
        (summary (validate_rules_against_egressips snat_rules lrp_rules (get_egressip_context items)))
     = Some (missing_snat_rules
               (validate_rules_against_egressips snat_rules lrp_rules (get_egressip_context items))
             = {}
             \<and> unexpected_snat_rules
               (validate_rules_against_egressips snat_rules lrp_rules (get_egressip_context items))
             = {})"
proof -
  have a: "available (get_egressip_context items)"
    by (simp add: get_egressip_context_def)
  show ?thesis
    using validation_of_available_context [OF a, of snat_rules lrp_rules]
    by (simp only: assigned_ips_of_context)
qed

theorem validation_against_assigned_witness:
  "missing_snat_rules
     (validate_rules_against_egressips
        [parse_egressip_snat_rule ''snat 10.0.0.5 192.168.1.10 port1''] []
        (get_egressip_context
           [\<lparr> object_name = ''egressip-sample'', spec_ips = [''10.0.0.9''],
              status_items = [\<lparr> egressIP = Some ''10.0.0.9'', assigned_node = Some ''worker-0'' \<rparr>] \<rparr>]))
     = {''10.0.0.9''}
   \<and> unexpected_snat_rules
     (validate_rules_against_egressips
        [parse_egressip_snat_rule ''snat 10.0.0.5 192.168.1.10 port1''] []
        (get_egressip_context
           [\<lparr> object_name = ''egressip-sample'', spec_ips = [''10.0.0.9''],
              status_items = [\<lparr> egressIP = Some ''10.0.0.9'', assigned_node = Some ''worker-0'' \<rparr>] \<rparr>]))
     = {''10.0.0.5''}
   \<and> map_option validation_passed
        (summary
          (validate_rules_against_egressips
             [parse_egressip_snat_rule ''snat 10.0.0.5 192.168.1.10 port1''] []
             (get_egressip_context
                [\<lparr> object_name = ''egressip-sample'', spec_ips = [''10.0.0.9''],
                   status_items = [\<lparr> egressIP = Some ''10.0.0.9'', assigned_node = Some ''worker-0'' \<rparr>] \<rparr>])))
     = Some False"
proof -
  let ?items = "[\<lparr> object_name = ''egressip-sample'', spec_ips = [''10.0.0.9''],
              status_items = [\<lparr> egressIP = Some ''10.0.0.9'', assigned_node = Some ''worker-0'' \<rparr>] \<rparr>]"
  let ?v = "validate_rules_against_egressips
              [parse_egressip_snat_rule ''snat 10.0.0.5 192.168.1.10 port1''] []
              (get_egressip_context ?items)"
  have a: "snat_external_ips [parse_egressip_snat_rule ''snat 10.0.0.5 192.168.1.10 port1''] = {''10.0.0.5''}"
    by code_simp
  have s: "{ip. \<exists>obj \<in> set ?items. \<exists>item \<in> set (status_items obj). egressIP item = Some ip}
      = {''10.0.0.9''}"
    by auto
  note t = validation_against_assigned
    [of "[parse_egressip_snat_rule ''snat 10.0.0.5 192.168.1.10 port1'']" "[]" ?items,
     unfolded a s]
  have m: "missing_snat_rules ?v = {''10.0.0.9''}" using t by simp
  have u: "unexpected_snat_rules ?v = {''10.0.0.5''}" using t by simp
  have p: "map_option validation_passed (summary ?v) = Some False"
    using t unfolding m u by simp
  show ?thesis using m u p by simp
qed

section \<open>The policy parser and priorities that are not integers\<close>

lemma py_split_aux_nonempty: "cur \<noteq> [] \<Longrightarrow> py_split_aux cur s \<noteq> []"
  by (induction s arbitrary: cur) simp_all

lemma py_split_nonempty:
  assumes "x \<noteq> []" and "\<not> py_isspace (hd x)"
  shows "py_split x \<noteq> []"
proof (cases x)
  case Nil
  with assms show ?thesis by simp
next
  case (Cons c cs)
  with assms show ?thesis
    by (simp add: py_split_def py_split_aux_nonempty)
qed

lemma py_split_max_items:
  "x \<in> set (py_split_max k s) \<Longrightarrow> x \<noteq> [] \<and> \<not> py_isspace (hd x)"
proof (induction k arbitrary: s)
  case 0
  then show ?case
    by (auto simp: Let_def hd_dropWhile split: if_splits)
next
  case (Suc k)
  let ?r = "dropWhile py_isspace s"
  show ?case
  proof (cases "?r = []")
    case True
    with Suc.prems show ?thesis by simp
  next
    case False
    then have h: "\<not> py_isspace (hd ?r)" by (rule hd_dropWhile)
    from False obtain c cs where r: "?r = c # cs" by (cases ?r) auto
    with h have c: "\<not> py_isspace c" by simp
    from Suc.prems False
    have "x = takeWhile (\<lambda>c. \<not> py_isspace c) ?r
          \<or> x \<in> set (py_split_max k (dropWhile (\<lambda>c. \<not> py_isspace c) ?r))"
      by (auto simp: Let_def split: if_splits)
    then show ?thesis
    proof
      assume "x = takeWhile (\<lambda>c. \<not> py_isspace c) ?r"
      then show ?thesis using r c by simp
    next
      assume "x \<in> set (py_split_max k (dropWhile (\<lambda>c. \<not> py_isspace c) ?r))"
      then show ?thesis by (rule Suc.IH)
    qed
  qed
qed

text \<open>
  Claim C3, as the code has it. The claim says a policy line of at least 3
  segments whose first segment is not an integer is returned with
  \<open>parse_success=false\<close>. The parser never reads the priority as a number:
  the line \<open>abc ip4.src==10.0.0.1 drop\<close> has three segments, \<open>int("abc")\<close>
  raises \<open>ValueError\<close>, and the record says the parse succeeded.
\<close>

theorem parse_lrp_rule_priority_counterexample:
  "py_split_max 2 (py_strip ''abc ip4.src==10.0.0.1 drop'') = [''abc'', ''ip4.src==10.0.0.1'', ''drop'']
   \<and> py_int ''abc'' = None
   \<and> parsed_successfully (parse_egressip_lrp_rule ''abc ip4.src==10.0.0.1 drop'')"
  by code_simp

text \<open>
  Claim C3, amended: for a policy line of at least 3 segments whose first
  segment is not an integer, the parser returns a record with the parse marked
  successful, the first segment kept as the priority's text and the raw line
  retained; the integer check is made by the rule analysis, which leaves the
  priority out of its priorities and records the issue \<open>Invalid priority: \<close>
  followed by the segment.
\<close>

theorem parse_lrp_rule_keeps_priority_text:
  assumes "py_split_max 2 (py_strip line) = p0 # p1 # p2 # rest" and "py_int p0 = None"
  shows "parsed_successfully (parse_egressip_lrp_rule line)
    \<and> raw_rule (parse_egressip_lrp_rule line) = line
    \<and> priority (parse_egressip_lrp_rule line) = Some p0
    \<and> map_sum id priorities (analyze_egressip_lrp_rules [parse_egressip_lrp_rule line]) = Inr []
    \<and> map_sum id lrp_potential_issues (analyze_egressip_lrp_rules [parse_egressip_lrp_rule line])
        = Inr [''Invalid priority: '' @ p0]"
proof -
  let ?r = "parse_egressip_lrp_rule line"
  have p0: "p0 \<noteq> []"
    using py_split_max_items [of p0 2 "py_strip line"] assms(1) by simp
  have "p2 \<noteq> [] \<and> \<not> py_isspace (hd p2)"
    using py_split_max_items [of p2 2 "py_strip line"] assms(1) by simp
  then have "py_split p2 \<noteq> []" by (simp add: py_split_nonempty)
  then obtain a as where a: "py_split p2 = a # as" by (cases "py_split p2") auto
  have r: "?r = \<lparr> rule_type = ''lrp'', external_ip = None, logical_ip = None, logical_port = None,
            priority = Some p0, match_field = Some p1, action = Some p2,
            raw_rule = line, parsed_successfully = True,
            egressip_related = is_egressip_related_lrp line \<rparr>"
    using assms(1) by (simp add: parse_egressip_lrp_rule_def)
  have p2: "p2 \<noteq> []" using a by (auto simp: py_split_def)
  have "lrp_rule_loop [?r] ([], [], []) = Inr ([], count_action a [], [''Invalid priority: '' @ p0])"
    unfolding r using p0 p2 a assms(2) by (simp add: truthy_def)
  then show ?thesis
    unfolding r by (simp add: analyze_egressip_lrp_rules_def)
qed

theorem parse_lrp_rule_keeps_priority_text_witness:
  "py_split_max 2 (py_strip ''abc ip4.src==10.0.0.1 drop'') = ''abc'' # ''ip4.src==10.0.0.1'' # ''drop'' # []
   \<and> py_int ''abc'' = None
   \<and> parsed_successfully (parse_egressip_lrp_rule ''abc ip4.src==10.0.0.1 drop'')
   \<and> priority (parse_egressip_lrp_rule ''abc ip4.src==10.0.0.1 drop'') = Some ''abc''
   \<and> map_sum id lrp_potential_issues
        (analyze_egressip_lrp_rules [parse_egressip_lrp_rule ''abc ip4.src==10.0.0.1 drop''])
      = Inr [''Invalid priority: abc'']"
proof -
  have s: "py_split_max 2 (py_strip ''abc ip4.src==10.0.0.1 drop'')
      = ''abc'' # ''ip4.src==10.0.0.1'' # ''drop'' # []"
    by code_simp
  have i: "py_int ''abc'' = None" by code_simp
  show ?thesis
    using s i parse_lrp_rule_keeps_priority_text [OF s i] by simp
qed

section \<open>Trend direction\<close>

text \<open>
  Claim C8, as the code has it. The claim says the direction is \<open>increasing\<close>
  whenever the percent change of the second half's mean over the first half's
  exceeds 10. The source computes the percent change only when the first half's
  mean is positive and takes it as 0 otherwise: for the series \<open>[-10, -20]\<close> the
  means are -10 and -20, the percent change (-20 - -10) / -10 * 100 is 100, and the
  direction is \<open>stable\<close>.
\<close>

theorem simple_trend_negative_counterexample:
  "2 \<le> length [- 10, - 20 :: rat]
   \<and> first_half_avg double_arithmetic [- 10, - 20] = - 10
   \<and> second_half_avg double_arithmetic [- 10, - 20] = - 20
   \<and> ((- 20 :: rat) - (- 10)) / (- 10) * 100 = 100
   \<and> simple_trend double_arithmetic [- 10, - 20] = ''stable''"
  by code_simp

text \<open>
  The percent change is a rounded double. On \<open>[3, 3, 4, 3, 3, 3]\<close> the means are
  the doubles next to 10/3 and 3, the exact change is -10, the computed one is
  just below it, and the direction is \<open>decreasing\<close>.
\<close>

lemma simple_trend_rounding_example:
  "simple_trend double_arithmetic [3, 3, 4, 3, 3, 3] = ''decreasing''"
  by code_simp

text \<open>
  Claim C8, amended: a series of fewer than 2 points gives
  \<open>insufficient_data\<close>; otherwise the series is split at \<open>floor(len/2)\<close>, the
  second half holding the extra element of an odd length, the means \<open>m1\<close> and
  \<open>m2\<close> of the halves and the percent change \<open>(m2 - m1) / m1 * 100\<close> are
  computed in the interpreter's arithmetic, and the direction is
  \<open>increasing\<close> when \<open>m1\<close> is positive and the computed percent change
  exceeds 10, \<open>decreasing\<close> when \<open>m1\<close> is positive and the computed percent
  change is below -10, and \<open>stable\<close> otherwise, so always when \<open>m1\<close> is zero
  or negative. The direction is a function of the series: equal series have equal
  directions. Of the arithmetic the statement needs only that its 10 is not
  below its 0 and its 0 not below its -10. The witness is the series
  \<open>[10, 10, 10, 20, 20]\<close> in the arithmetic of doubles: direction
  \<open>increasing\<close>.
\<close>

theorem simple_trend_cases:
  assumes "\<not> ar_less ar (ar_int ar 10) (ar_int ar 0)"
    and "\<not> ar_less ar (ar_int ar 0) (ar_int ar (- 10))"
  shows "(length values < 2 \<longrightarrow> simple_trend ar values = ''insufficient_data'')
   \<and> length (drop (length values div 2) values)
       = length (take (length values div 2) values) + length values mod 2
   \<and> (2 \<le> length values \<longrightarrow>
        (let m1 = ar_div ar (ar_sum ar (take (length values div 2) values))
                    (ar_int ar (int (length values div 2)));
             m2 = ar_div ar (ar_sum ar (drop (length values div 2) values))
                    (ar_int ar (int (length values - length values div 2)));
             change = ar_mul ar (ar_div ar (ar_sub ar m2 m1) m1) (ar_int ar 100)
         in simple_trend ar values =
              (if ar_less ar (ar_int ar 0) m1 \<and> ar_less ar (ar_int ar 10) change
               then ''increasing''
               else if ar_less ar (ar_int ar 0) m1 \<and> ar_less ar change (ar_int ar (- 10))
               then ''decreasing''
               else ''stable'')))"
proof -
  have a: "length values < 2 \<longrightarrow> simple_trend ar values = ''insufficient_data''"
    by (simp add: simple_trend_def)
  have b: "length (drop (length values div 2) values)
       = length (take (length values div 2) values) + length values mod 2"
  proof -
    have "length values - length values div 2 = length values div 2 + length values mod 2"
      by presburger
    moreover have "min (length values) (length values div 2) = length values div 2"
      by simp
    ultimately show ?thesis by (simp only: length_drop length_take)
  qed
  have c: "2 \<le> length values \<longrightarrow>
        (let m1 = ar_div ar (ar_sum ar (take (length values div 2) values))
                    (ar_int ar (int (length values div 2)));
             m2 = ar_div ar (ar_sum ar (drop (length values div 2) values))
                    (ar_int ar (int (length values - length values div 2)));
             change = ar_mul ar (ar_div ar (ar_sub ar m2 m1) m1) (ar_int ar 100)
         in simple_trend ar values =
              (if ar_less ar (ar_int ar 0) m1 \<and> ar_less ar (ar_int ar 10) change
               then ''increasing''
               else if ar_less ar (ar_int ar 0) m1 \<and> ar_less ar change (ar_int ar (- 10))
               then ''decreasing''
               else ''stable''))"
  proof
    assume n: "2 \<le> length values"
    then have mid: "0 < length values div 2" by simp
    have nl: "\<not> length values < 2" using n by simp
    show "(let m1 = ar_div ar (ar_sum ar (take (length values div 2) values))
                    (ar_int ar (int (length values div 2)));
             m2 = ar_div ar (ar_sum ar (drop (length values div 2) values))
                    (ar_int ar (int (length values - length values div 2)));
             change = ar_mul ar (ar_div ar (ar_sub ar m2 m1) m1) (ar_int ar 100)
         in simple_trend ar values =
              (if ar_less ar (ar_int ar 0) m1 \<and> ar_less ar (ar_int ar 10) change
               then ''increasing''
               else if ar_less ar (ar_int ar 0) m1 \<and> ar_less ar change (ar_int ar (- 10))
               then ''decreasing''
               else ''stable''))"
      unfolding simple_trend_def first_half_avg_def second_half_avg_def Let_def
      using mid nl assms by simp
  qed
  from a b c show ?thesis by blast
qed

theorem simple_trend_cases_witness:
  "\<not> ar_less double_arithmetic (ar_int double_arithmetic 10) (ar_int double_arithmetic 0)
   \<and> \<not> ar_less double_arithmetic (ar_int double_arithmetic 0) (ar_int double_arithmetic (- 10))
   \<and> 2 \<le> length [10, 10, 10, 20, 20 :: rat]
   \<and> ar_div double_arithmetic (ar_sum double_arithmetic (take 2 [10, 10, 10, 20, 20]))
        (ar_int double_arithmetic 2) = 10
   \<and> ar_div double_arithmetic (ar_sum double_arithmetic (drop 2 [10, 10, 10, 20, 20]))
        (ar_int double_arithmetic 3) = 4691249611844267 / 281474976710656
   \<and> simple_trend double_arithmetic [10, 10, 10, 20, 20] = ''increasing''"
proof -
  have o1: "\<not> ar_less double_arithmetic (ar_int double_arithmetic 10) (ar_int double_arithmetic 0)"
    by code_simp
  have o2: "\<not> ar_less double_arithmetic (ar_int double_arithmetic 0) (ar_int double_arithmetic (- 10))"
    by code_simp
  have n: "2 \<le> length [10, 10, 10, 20, 20 :: rat]" by simp
  have m1: "ar_div double_arithmetic (ar_sum double_arithmetic (take 2 [10, 10, 10, 20, 20]))
        (ar_int double_arithmetic 2) = 10"
    by code_simp
  have m2: "ar_div double_arithmetic (ar_sum double_arithmetic (drop 2 [10, 10, 10, 20, 20]))
        (ar_int double_arithmetic 3) = 4691249611844267 / 281474976710656"
    by code_simp
  have p: "ar_less double_arithmetic (ar_int double_arithmetic 0) 10" by code_simp
  have c: "ar_less double_arithmetic (ar_int double_arithmetic 10)
      (ar_mul double_arithmetic
         (ar_div double_arithmetic
            (ar_sub double_arithmetic (4691249611844267 / 281474976710656) 10) 10)
         (ar_int double_arithmetic 100))"
    by code_simp
  have l: "length [10, 10, 10, 20, 20 :: rat] div 2 = 2"
    and l': "length [10, 10, 10, 20, 20 :: rat] - 2 = 3" by simp_all
  have "simple_trend double_arithmetic [10, 10, 10, 20, 20] = ''increasing''"
    using conjunct2 [OF conjunct2 [OF simple_trend_cases [OF o1 o2, of "[10, 10, 10, 20, 20]"]]] n
    unfolding Let_def l l'
    using m1 m2 p c by (simp only: numeral_2_eq_2 [symmetric] int_ops if_True simp_thms)
  then show ?thesis using o1 o2 n m1 m2 by simp
qed

section \<open>Addresses missing on a node\<close>

text \<open>
  The nodes that enter the content comparison are the ones whose analysis
  succeeded, each with the external addresses of its analysis.
\<close>

lemma content_ex:
  "(\<exists>d. (n, d) \<in> set (compare_egressip_rule_content nas) \<and> R (content_snat_external_ips d)) \<longleftrightarrow>
   (\<exists>a. (n, a) \<in> set nas \<and> node_succeeded a \<and> R (node_external_ips a))"
proof (induction nas rule: compare_egressip_rule_content.induct)
  case 1
  then show ?case by simp
next
  case (2 n' rc sa la rest)
  have s: "node_succeeded (Node_Success rc sa la)"
    and e: "node_external_ips (Node_Success rc sa la) = external_ips sa"
    by (simp_all add: node_succeeded_def node_external_ips_def)
  show ?case
    using "2.IH" s e by (simp add: ex_disj_distrib conj_disj_distribR)
next
  case (3 n' e rest)
  have "\<not> node_succeeded (Node_Error e)"
    by (simp add: node_succeeded_def)
  then show ?case
    using "3.IH" by (simp add: ex_disj_distrib conj_disj_distribR)
qed

lemma all_snat_ips_nodes:
  "all_snat_ips (compare_egressip_rule_content nas) = \<Union> (node_external_ips ` snd ` set nas)"
  by (induction nas rule: compare_egressip_rule_content.induct)
     (simp_all add: all_snat_ips_def node_external_ips_def)

lemma missing_on_node_iff:
  "Missing_Snat_Ips n m \<in> set (missing_on_node all_ips nd) \<longleftrightarrow>
   (fst nd = n \<and> m = all_ips - content_snat_external_ips (snd nd) \<and> m \<noteq> {})"
  by (auto simp: missing_on_node_def Let_def)

lemma bex_pair_fst:
  "(\<exists>nd \<in> set c. fst nd = n \<and> P (snd nd)) \<longleftrightarrow> (\<exists>d. (n, d) \<in> set c \<and> P d)"
  by force

lemma single_node_nothing_missing:
  assumes "\<not> 1 < length c" and "(n, d) \<in> set c"
  shows "all_snat_ips c - content_snat_external_ips d = {}"
proof -
  from assms have "c = [(n, d)]"
    by (cases c) auto
  then show ?thesis by (simp add: all_snat_ips_def)
qed

text \<open>
  With a single node in the comparison nothing can be missing, so the guard on
  the number of nodes does not show in the result.
\<close>

lemma missing_in_identify:
  "Missing_Snat_Ips n m \<in> set (identify_egressip_inconsistencies rcc c) \<longleftrightarrow>
   (\<exists>d. (n, d) \<in> set c \<and> (m = all_snat_ips c - content_snat_external_ips d \<and> m \<noteq> {}))"
proof -
  have "Missing_Snat_Ips n m \<in> set (identify_egressip_inconsistencies rcc c) \<longleftrightarrow>
    (1 < length c \<and> (\<exists>nd \<in> set c. fst nd = n
       \<and> (m = all_snat_ips c - content_snat_external_ips (snd nd) \<and> m \<noteq> {})))"
    by (simp add: identify_egressip_inconsistencies_def missing_on_node_iff)
  also have "\<dots> \<longleftrightarrow> (1 < length c \<and>
      (\<exists>d. (n, d) \<in> set c \<and> (m = all_snat_ips c - content_snat_external_ips d \<and> m \<noteq> {})))"
    by (simp only: bex_pair_fst [of c n "\<lambda>d. m = all_snat_ips c - content_snat_external_ips d \<and> m \<noteq> {}"])
  also have "\<dots> \<longleftrightarrow>
      (\<exists>d. (n, d) \<in> set c \<and> (m = all_snat_ips c - content_snat_external_ips d \<and> m \<noteq> {}))"
    using single_node_nothing_missing [of c n] by blast
  finally show ?thesis .
qed

lemma missing_across_nodes:
  "Missing_Snat_Ips n m \<in> set (compare_egressip_rules_across_nodes nas) \<longleftrightarrow>
   (\<exists>a. (n, a) \<in> set nas \<and> node_succeeded a
      \<and> m = \<Union> (node_external_ips ` snd ` set nas) - node_external_ips a \<and> m \<noteq> {})"
  unfolding compare_egressip_rules_across_nodes_def missing_in_identify all_snat_ips_nodes
  by (rule content_ex [of n nas "\<lambda>s. m = \<Union> (node_external_ips ` snd ` set nas) - s \<and> m \<noteq> {}"])

lemma external_ips_of_analysis:
  "external_ips (analyze_egressip_snat_rules snat_rules) =
   {ip. ip \<noteq> [] \<and> (\<exists>r \<in> set snat_rules. parsed_successfully r \<and> external_ip r = Some ip)}"
proof (rule set_eqI)
  fix ip
  have t: "\<And>r. (truthy (external_ip r) \<and> ip = the (external_ip r))
      \<longleftrightarrow> (ip \<noteq> [] \<and> external_ip r = Some ip)"
  proof -
    fix r
    show "(truthy (external_ip r) \<and> ip = the (external_ip r))
      \<longleftrightarrow> (ip \<noteq> [] \<and> external_ip r = Some ip)"
      by (cases "external_ip r") (auto simp: truthy_def)
  qed
  have "ip \<in> external_ips (analyze_egressip_snat_rules snat_rules) \<longleftrightarrow>
    (\<exists>r \<in> set snat_rules. parsed_successfully r
       \<and> (truthy (external_ip r) \<and> ip = the (external_ip r)))"
    by (auto simp: analyze_egressip_snat_rules_def)
  also have "\<dots> \<longleftrightarrow>
    (\<exists>r \<in> set snat_rules. parsed_successfully r \<and> (ip \<noteq> [] \<and> external_ip r = Some ip))"
    by (simp only: t)
  also have "\<dots> \<longleftrightarrow> ip \<in> {ip. ip \<noteq> [] \<and>
      (\<exists>r \<in> set snat_rules. parsed_successfully r \<and> external_ip r = Some ip)}"
    by blast
  finally show "ip \<in> external_ips (analyze_egressip_snat_rules snat_rules) \<longleftrightarrow>
    ip \<in> {ip. ip \<noteq> [] \<and>
      (\<exists>r \<in> set snat_rules. parsed_successfully r \<and> external_ip r = Some ip)}" .
qed

text \<open>
  Claim C6, as the code has it. The claim takes the union over the nodes of
  the external addresses of the relevant NAT rules. The comparison reads the
  \<open>external_ips\<close> of each node's NAT analysis, which holds the external address of
  every NAT rule that parsed, relevant or not. Node 1 has the one rule
  \<open>snat fd00::5 fd00::6 k8s-node1\<close>, which parses and is not relevant (it has no
  keyword and no IPv4 address); node 2 has no rule. No node has a relevant
  address, and node 2 is flagged as missing \<open>fd00::5\<close>.
\<close>

theorem missing_ips_relevant_counterexample:
  "snat_external_ips [parse_egressip_snat_rule ''snat fd00::5 fd00::6 k8s-node1''] = {}
   \<and> snat_external_ips [] = {}
   \<and> compare_egressip_rules_across_nodes
        [(''node1'', analyze_node_rules [parse_egressip_snat_rule ''snat fd00::5 fd00::6 k8s-node1''] []),
         (''node2'', analyze_node_rules [] [])]
       = [Rule_Count_Mismatch [(''node1'', 1, 0), (''node2'', 0, 0)],
          Missing_Snat_Ips ''node2'' {''fd00::5''}]"
proof -
  have r: "parse_egressip_snat_rule ''snat fd00::5 fd00::6 k8s-node1'' =
    \<lparr> rule_type = ''snat'', external_ip = Some ''fd00::5'', logical_ip = Some ''fd00::6'',
      logical_port = Some ''k8s-node1'', priority = None, match_field = None, action = None,
      raw_rule = ''snat fd00::5 fd00::6 k8s-node1'', parsed_successfully = True,
      egressip_related = False \<rparr>"
    by code_simp
  have l: "analyze_egressip_lrp_rules [] =
    Inr \<lparr> lrp_total_rules = 0, lrp_parsed_successfully = 0, lrp_egressip_related = 0,
          priorities = [], action_types = [], lrp_potential_issues = [],
          priority_stats = (0, 0, 0) \<rparr>"
    by (simp add: analyze_egressip_lrp_rules_def)
  show ?thesis
    unfolding r
    by (simp add: l snat_external_ips_def compare_egressip_rules_across_nodes_def
          analyze_node_rules_def analyze_egressip_snat_rules_def
          identify_egressip_inconsistencies_def all_snat_ips_def missing_on_node_def
          truthy_def Let_def)
qed

text \<open>
  Claim C6, amended: the external addresses of a node's analysis are the
  non-empty external addresses of its NAT rules that parsed, relevant or not; with
  \<open>U\<close> the union of these over the nodes that were analysed successfully, a
  node is flagged with the missing set \<open>U\<close> minus its own addresses exactly
  when it was analysed successfully and that difference is not empty; and a node
  whose addresses contain those of every node is never flagged. The witness is two
  nodes with addresses \<open>{10.0.0.5}\<close> and \<open>{10.0.0.5, 10.0.0.6}\<close>: the first
  is flagged as missing \<open>10.0.0.6\<close>, the second is not flagged.
\<close>

theorem missing_ips_across_nodes:
  "external_ips (analyze_egressip_snat_rules snat_rules) =
     {ip. ip \<noteq> [] \<and> (\<exists>r \<in> set snat_rules. parsed_successfully r \<and> external_ip r = Some ip)}
   \<and> (Missing_Snat_Ips n m \<in> set (compare_egressip_rules_across_nodes nas) \<longleftrightarrow>
        (\<exists>a. (n, a) \<in> set nas \<and> node_succeeded a
           \<and> m = \<Union> (node_external_ips ` snd ` set nas) - node_external_ips a \<and> m \<noteq> {}))
   \<and> (distinct (map fst nas) \<and> (n, b) \<in> set nas
        \<and> (\<forall>p \<in> set nas. node_external_ips (snd p) \<subseteq> node_external_ips b)
        \<longrightarrow> (\<forall>m'. Missing_Snat_Ips n m' \<notin> set (compare_egressip_rules_across_nodes nas)))"
proof -
  have c: "distinct (map fst nas) \<and> (n, b) \<in> set nas
        \<and> (\<forall>p \<in> set nas. node_external_ips (snd p) \<subseteq> node_external_ips b)
        \<longrightarrow> (\<forall>m'. Missing_Snat_Ips n m' \<notin> set (compare_egressip_rules_across_nodes nas))"
  proof (intro impI allI notI)
    fix m'
    assume h: "distinct (map fst nas) \<and> (n, b) \<in> set nas
        \<and> (\<forall>p \<in> set nas. node_external_ips (snd p) \<subseteq> node_external_ips b)"
    assume "Missing_Snat_Ips n m' \<in> set (compare_egressip_rules_across_nodes nas)"
    then obtain a where a: "(n, a) \<in> set nas"
      and m': "m' = \<Union> (node_external_ips ` snd ` set nas) - node_external_ips a" and ne: "m' \<noteq> {}"
      unfolding missing_across_nodes by (elim exE conjE)
    from h have d: "distinct (map fst nas)" and b: "(n, b) \<in> set nas" by simp_all
    from d a b have "a = b" by (rule eq_key_imp_eq_value)
    moreover from h have "\<Union> (node_external_ips ` snd ` set nas) \<subseteq> node_external_ips b"
      by (simp add: UN_least)
    ultimately have "m' = {}" using m' by (simp add: Diff_eq_empty_iff)
    with ne show False by simp
  qed
  show ?thesis
    apply (intro conjI)
      apply (rule external_ips_of_analysis)
     apply (rule missing_across_nodes)
    apply (rule c)
    done
qed

theorem missing_ips_across_nodes_witness:
  "node_external_ips node1_analysis = {''10.0.0.5''}
   \<and> node_external_ips node2_analysis = {''10.0.0.5'', ''10.0.0.6''}
   \<and> distinct (map fst [(''node1'', node1_analysis), (''node2'', node2_analysis)])
   \<and> Missing_Snat_Ips ''node1'' {''10.0.0.6''}
        \<in> set (compare_egressip_rules_across_nodes
                 [(''node1'', node1_analysis), (''node2'', node2_analysis)])
   \<and> (\<forall>m'. Missing_Snat_Ips ''node2'' m'
        \<notin> set (compare_egressip_rules_across_nodes
                 [(''node1'', node1_analysis), (''node2'', node2_analysis)]))"
proof -
  let ?nas = "[(''node1'', node1_analysis), (''node2'', node2_analysis)]"
  have r5: "parse_egressip_snat_rule ''snat 10.0.0.5 10.244.0.5 k8s-node1'' =
    \<lparr> rule_type = ''snat'', external_ip = Some ''10.0.0.5'', logical_ip = Some ''10.244.0.5'',
      logical_port = Some ''k8s-node1'', priority = None, match_field = None, action = None,
      raw_rule = ''snat 10.0.0.5 10.244.0.5 k8s-node1'', parsed_successfully = True,
      egressip_related = True \<rparr>"
    by code_simp
  have r6: "parse_egressip_snat_rule ''snat 10.0.0.6 10.244.1.7 k8s-node2'' =
    \<lparr> rule_type = ''snat'', external_ip = Some ''10.0.0.6'', logical_ip = Some ''10.244.1.7'',
      logical_port = Some ''k8s-node2'', priority = None, match_field = None, action = None,
      raw_rule = ''snat 10.0.0.6 10.244.1.7 k8s-node2'', parsed_successfully = True,
      egressip_related = True \<rparr>"
    by code_simp
  have l: "analyze_egressip_lrp_rules [] =
    Inr \<lparr> lrp_total_rules = 0, lrp_parsed_successfully = 0, lrp_egressip_related = 0,
          priorities = [], action_types = [], lrp_potential_issues = [],
          priority_stats = (0, 0, 0) \<rparr>"
    by (simp add: analyze_egressip_lrp_rules_def)
  have i1: "node_external_ips node1_analysis = {''10.0.0.5''}"
    unfolding node1_analysis_def r5
    by (simp add: l node_external_ips_def analyze_node_rules_def
          analyze_egressip_snat_rules_def truthy_def)
  have i2: "node_external_ips node2_analysis = {''10.0.0.5'', ''10.0.0.6''}"
    unfolding node2_analysis_def r5 r6
    by (simp add: l node_external_ips_def analyze_node_rules_def
          analyze_egressip_snat_rules_def truthy_def)
  have s1: "node_succeeded node1_analysis"
    unfolding node1_analysis_def
    by (simp add: l node_succeeded_def analyze_node_rules_def)
  have d: "distinct (map fst ?nas)" by simp
  have u: "\<Union> (node_external_ips ` snd ` set ?nas) - node_external_ips node1_analysis
      = {''10.0.0.6''}"
    by (auto simp: i1 i2)
  have "\<exists>a. (''node1'', a) \<in> set ?nas \<and> node_succeeded a
      \<and> {''10.0.0.6''} = \<Union> (node_external_ips ` snd ` set ?nas) - node_external_ips a
      \<and> {''10.0.0.6''} \<noteq> {}"
    using s1 u by (intro exI [of _ node1_analysis]) simp
  then have f: "Missing_Snat_Ips ''node1'' {''10.0.0.6''}
      \<in> set (compare_egressip_rules_across_nodes ?nas)"
    by (rule iffD2 [OF conjunct1 [OF conjunct2
          [OF missing_ips_across_nodes [where n = "''node1''" and nas = ?nas]]]])
  have sub: "\<forall>p \<in> set ?nas. node_external_ips (snd p) \<subseteq> node_external_ips node2_analysis"
    by (simp add: i1 i2)
  have "distinct (map fst ?nas) \<and> (''node2'', node2_analysis) \<in> set ?nas
      \<and> (\<forall>p \<in> set ?nas. node_external_ips (snd p) \<subseteq> node_external_ips node2_analysis)"
    using d sub by simp
  then have g: "\<forall>m'. Missing_Snat_Ips ''node2'' m'
      \<notin> set (compare_egressip_rules_across_nodes ?nas)"
    by (rule mp [OF conjunct2 [OF conjunct2
          [OF missing_ips_across_nodes [where n = "''node2''" and nas = ?nas]]]])
  show ?thesis using i1 i2 d f g by (intro conjI)
qed

end
